theory Spec2Isabelle
  imports Main
begin

section \<open>Data model (lib/api.ts)\<close>

text \<open>
  A JavaScript \<open>number\<close> that holds a count is an \<open>int\<close>; a
  \<open>Record<string, number>\<close> is an association list, which keeps the insertion order
  of the object's keys. An optional field (\<open>topPerformers?: ...\<close>) is an \<open>option\<close>:
  \<open>None\<close> is \<open>undefined\<close>, and \<open>Some xs\<close> is truthy for every array \<open>xs\<close>,
  the empty one included.
\<close>

type_synonym Breakdown = "(string \<times> int) list"

record TopPerformer =
  shortCode :: string
  clicks :: int
  jobTitle :: string
  location :: string
  originalUrl :: string

record MetricPair =
  clicks :: int
  uniqueUrls :: int

record ThisWeek =
  clicks :: int
  uniqueUrls :: int
  topPerformers :: "TopPerformer list option"

record ThisMonth =
  clicks :: int
  uniqueUrls :: int
  topPerformers :: "TopPerformer list option"
  locationBreakdown :: "Breakdown option"
  jobTitleBreakdown :: "Breakdown option"

record SummaryData =
  today :: MetricPair
  yesterday :: MetricPair
  thisWeek :: ThisWeek
  thisMonth :: ThisMonth

record DailyBreakdown =
  date :: string
  totalClicks :: int
  uniqueUrls :: int
  topShortCodes :: "TopPerformer list"
  locationBreakdown :: Breakdown
  jobTitleBreakdown :: Breakdown

text \<open>\<open>WeeklyData\<close>, \<open>MonthlyData\<close> and \<open>RangeData\<close> are one type in the source.\<close>

record WeeklyData =
  totalClicks :: int
  uniqueUrls :: int
  dailyBreakdown :: "DailyBreakdown list"
  topPerformers :: "TopPerformer list"
  locationBreakdown :: Breakdown
  jobTitleBreakdown :: Breakdown

type_synonym MonthlyData = WeeklyData
type_synonym RangeData = WeeklyData

text \<open>The envelope \<open>{success, data}\<close> shared by the four responses.\<close>

record 'a Response =
  success :: bool
  data :: 'a

datatype TimeRange = Today | Yesterday | ThisWeek | ThisMonth

record TrendPoint =
  date :: string
  totalClicks :: int

text \<open>The object returned by \<open>getBreakdownsForRange\<close>.\<close>

record Breakdowns =
  locationBreakdown :: Breakdown
  jobTitleBreakdown :: Breakdown
  topPerformers :: "TopPerformer list"
  trendData :: "TrendPoint list"


section \<open>The JavaScript \<open>Date\<close> operations the code calls\<close>

text \<open>
  A \<open>Date\<close> is its time value: milliseconds since 1970-01-01T00:00:00Z. Every
  \<open>Date\<close> of the program comes from the clock (\<open>new Date()\<close>) or is a copy of one, so
  the invalid date is not represented. The definitions follow the abstract operations of
  ECMA-262 (Day, TimeWithinDay, DayFromYear, YearFromTime, MonthFromTime, DateFromTime,
  LocalTime, UTC, MakeDay, MakeDate). The host's time zone is the function
  \<open>LocalTZA t isUTC\<close>: the offset of local time from UTC in milliseconds, at the UTC
  instant \<open>t\<close> when \<open>isUTC\<close> holds and at the local time \<open>t\<close> otherwise.
\<close>

type_synonym LocalTZA = "int \<Rightarrow> bool \<Rightarrow> int"

definition msPerDay :: int where
  "msPerDay = 86400000"

definition Day :: "int \<Rightarrow> int" where
  "Day t = t div msPerDay"

definition TimeWithinDay :: "int \<Rightarrow> int" where
  "TimeWithinDay t = t mod msPerDay"

definition DaysInYear :: "int \<Rightarrow> int" where
  "DaysInYear y =
     (if y mod 4 \<noteq> 0 then 365
      else if y mod 100 \<noteq> 0 then 366
      else if y mod 400 \<noteq> 0 then 365
      else 366)"

definition DayFromYear :: "int \<Rightarrow> int" where
  "DayFromYear y =
     365 * (y - 1970) + (y - 1969) div 4 - (y - 1901) div 100 + (y - 1601) div 400"

text \<open>
  The year of a day number: the largest \<open>y\<close> with \<open>DayFromYear y \<le> d\<close>, found from
  the mean length of a year (146097 days in 400 years) and one step of correction.
\<close>

definition YearFromDay :: "int \<Rightarrow> int" where
  "YearFromDay d =
     (let y = 1970 + (400 * d) div 146097
      in if d < DayFromYear y then y - 1
         else if DayFromYear (y + 1) \<le> d then y + 1
         else y)"

definition YearFromTime :: "int \<Rightarrow> int" where
  "YearFromTime t = YearFromDay (Day t)"

definition InLeapYear :: "int \<Rightarrow> bool" where
  "InLeapYear t = (DaysInYear (YearFromTime t) = 366)"

definition DayWithinYear :: "int \<Rightarrow> int" where
  "DayWithinYear t = Day t - DayFromYear (YearFromTime t)"

text \<open>The day within the year on which month \<open>m\<close> (0 = January) starts.\<close>

definition monthStart :: "bool \<Rightarrow> int \<Rightarrow> int" where
  "monthStart leap m =
     (let l = (if leap then 1 else 0)
      in if m = 0 then 0
         else if m = 1 then 31
         else if m = 2 then 59 + l
         else if m = 3 then 90 + l
         else if m = 4 then 120 + l
         else if m = 5 then 151 + l
         else if m = 6 then 181 + l
         else if m = 7 then 212 + l
         else if m = 8 then 243 + l
         else if m = 9 then 273 + l
         else if m = 10 then 304 + l
         else 334 + l)"

definition MonthFromTime :: "int \<Rightarrow> int" where
  "MonthFromTime t =
     (let d = DayWithinYear t; l = (if InLeapYear t then 1 else 0)
      in if d < 31 then 0
         else if d < 59 + l then 1
         else if d < 90 + l then 2
         else if d < 120 + l then 3
         else if d < 151 + l then 4
         else if d < 181 + l then 5
         else if d < 212 + l then 6
         else if d < 243 + l then 7
         else if d < 273 + l then 8
         else if d < 304 + l then 9
         else if d < 334 + l then 10
         else 11)"

definition DateFromTime :: "int \<Rightarrow> int" where
  "DateFromTime t = DayWithinYear t - monthStart (InLeapYear t) (MonthFromTime t) + 1"

definition LocalTime :: "LocalTZA \<Rightarrow> int \<Rightarrow> int" where
  "LocalTime tza t = t + tza t True"

definition UTC :: "LocalTZA \<Rightarrow> int \<Rightarrow> int" where
  "UTC tza t = t - tza t False"

text \<open>
  \<open>MakeDay year month date\<close>: the day number of the first of the month, plus
  \<open>date - 1\<close>; \<open>date\<close> may be zero or negative and then reaches into the months before.
\<close>

definition MakeDay :: "int \<Rightarrow> int \<Rightarrow> int \<Rightarrow> int" where
  "MakeDay year month dt =
     (let ym = year + month div 12; mn = month mod 12
      in DayFromYear ym + monthStart (DaysInYear ym = 366) mn + dt - 1)"

definition MakeDate :: "int \<Rightarrow> int \<Rightarrow> int" where
  "MakeDate day time = day * msPerDay + time"

text \<open>\<open>d.getDate()\<close>: the day of the month in local time.\<close>

definition getDate :: "LocalTZA \<Rightarrow> int \<Rightarrow> int" where
  "getDate tza t = DateFromTime (LocalTime tza t)"

text \<open>\<open>d.setDate(dt)\<close>: the new time value of \<open>d\<close>; the local time of day is kept.\<close>

definition setDate :: "LocalTZA \<Rightarrow> int \<Rightarrow> int \<Rightarrow> int" where
  "setDate tza t dt =
     (let lt = LocalTime tza t
      in UTC tza (MakeDate (MakeDay (YearFromTime lt) (MonthFromTime lt) dt) (TimeWithinDay lt)))"

text \<open>Decimal digits of \<open>n\<close>, in a field of \<open>w\<close> characters padded with zeros.\<close>

fun digits :: "nat \<Rightarrow> nat \<Rightarrow> string" where
  "digits 0 n = []"
| "digits (Suc w) n = digits w (n div 10) @ [''0123456789'' ! (n mod 10)]"

text \<open>
  \<open>d.toISOString()\<close>: the UTC date and time as \<open>YYYY-MM-DDTHH:mm:ss.sssZ\<close>; a year
  outside 0..9999 is written with a sign and six digits.
\<close>

definition yearString :: "int \<Rightarrow> string" where
  "yearString y =
     (if 0 \<le> y \<and> y \<le> 9999 then digits 4 (nat y)
      else (if y < 0 then ''-'' else ''+'') @ digits 6 (nat \<bar>y\<bar>))"

definition toISOString :: "int \<Rightarrow> string" where
  "toISOString t =
     (let ms = TimeWithinDay t
      in yearString (YearFromTime t) @ ''-'' @ digits 2 (nat (MonthFromTime t + 1)) @ ''-''
         @ digits 2 (nat (DateFromTime t)) @ ''T''
         @ digits 2 (nat (ms div 3600000)) @ '':''
         @ digits 2 (nat (ms div 60000 mod 60)) @ '':''
         @ digits 2 (nat (ms div 1000 mod 60)) @ ''.''
         @ digits 3 (nat (ms mod 1000)) @ ''Z'')"

text \<open>\<open>s.slice(0, 10)\<close>, as every call site has it.\<close>

definition slice_0_10 :: "string \<Rightarrow> string" where
  "slice_0_10 s = take 10 s"


section \<open>Summary numbers and breakdowns for a range (lib/api.ts)\<close>

text \<open>
  \<open>getSummaryForRange\<close> returns one of the four objects of the summary as it is, so
  the result is the union of their shapes.
\<close>

datatype SummaryForRange =
  Plain MetricPair | Week ThisWeek | Month ThisMonth

definition getSummaryForRange :: "SummaryData option \<Rightarrow> TimeRange \<Rightarrow> SummaryForRange" where
  "getSummaryForRange summary rng =
     (case summary of
        None \<Rightarrow> Plain \<lparr>MetricPair.clicks = 0, uniqueUrls = 0\<rparr>
      | Some s \<Rightarrow>
          (case rng of
             Today \<Rightarrow> Plain (today s)
           | Yesterday \<Rightarrow> Plain (yesterday s)
           | ThisWeek \<Rightarrow> Week (thisWeek s)
           | ThisMonth \<Rightarrow> Month (thisMonth s)))"

definition trendPoint :: "DailyBreakdown \<Rightarrow> TrendPoint" where
  "trendPoint d = \<lparr>TrendPoint.date = DailyBreakdown.date d,
                    totalClicks = DailyBreakdown.totalClicks d\<rparr>"

text \<open>
  The date string that the today/yesterday drill-down looks for. \<open>now\<close> is the clock
  read by \<open>new Date()\<close> (both reads of the source are taken at one instant).
\<close>

definition targetDate :: "LocalTZA \<Rightarrow> int \<Rightarrow> TimeRange \<Rightarrow> string" where
  "targetDate tza now rng =
     (let today = now;
          yesterday = setDate tza now (getDate tza today - 1)
      in if rng = Today then slice_0_10 (toISOString today)
         else slice_0_10 (toISOString yesterday))"

text \<open>The week-level (or month-level) values of a rollup, with its projected series.\<close>

definition rollupBreakdowns :: "WeeklyData \<Rightarrow> Breakdowns" where
  "rollupBreakdowns w =
     \<lparr>Breakdowns.locationBreakdown = WeeklyData.locationBreakdown w,
      jobTitleBreakdown = WeeklyData.jobTitleBreakdown w,
      topPerformers = WeeklyData.topPerformers w,
      trendData = map trendPoint (dailyBreakdown w)\<rparr>"

definition getBreakdownsForRange ::
  "LocalTZA \<Rightarrow> int \<Rightarrow> WeeklyData option \<Rightarrow> MonthlyData option \<Rightarrow> SummaryData option
     \<Rightarrow> TimeRange \<Rightarrow> Breakdowns" where
  "getBreakdownsForRange tza now weekly monthly summary rng =
     (let r0 = \<lparr>Breakdowns.locationBreakdown = [], jobTitleBreakdown = [],
                topPerformers = [], trendData = []\<rparr>;
          r1 =
            (case (if rng = ThisMonth then monthly else None) of
               Some m \<Rightarrow> rollupBreakdowns m
             | None \<Rightarrow>
                 (case weekly of
                    Some w \<Rightarrow>
                      (if rng = Today \<or> rng = Yesterday then
                         (case find (\<lambda>d. DailyBreakdown.date d = targetDate tza now rng)
                                    (dailyBreakdown w) of
                            Some day \<Rightarrow>
                              (rollupBreakdowns w)
                                \<lparr>Breakdowns.locationBreakdown :=
                                   DailyBreakdown.locationBreakdown day,
                                 Breakdowns.jobTitleBreakdown :=
                                   DailyBreakdown.jobTitleBreakdown day,
                                 Breakdowns.topPerformers := topShortCodes day\<rparr>
                          | None \<Rightarrow> rollupBreakdowns w)
                       else rollupBreakdowns w)
                  | None \<Rightarrow> r0))
      in case summary of
           None \<Rightarrow> r1
         | Some s \<Rightarrow>
             (let r2 =
                    (case (if rng = ThisWeek then ThisWeek.topPerformers (thisWeek s)
                           else None) of
                       Some tp \<Rightarrow> r1\<lparr>Breakdowns.topPerformers := tp\<rparr>
                     | None \<Rightarrow> r1)
              in case (if rng = ThisMonth then ThisMonth.topPerformers (thisMonth s)
                       else None) of
                   Some tp \<Rightarrow> r2\<lparr>Breakdowns.topPerformers := tp\<rparr>
                 | None \<Rightarrow> r2))"


section \<open>The earlier revision of lib/api.ts, on whole responses\<close>

text \<open>
  This revision takes the responses with their envelopes: a weekly or monthly response
  counts only when it is there and its \<open>success\<close> flag holds, and the summary is read
  through \<open>summary.data\<close> whenever the response is there.
\<close>

definition getSummaryForRange_resp ::
  "SummaryData Response option \<Rightarrow> TimeRange \<Rightarrow> SummaryForRange" where
  "getSummaryForRange_resp summary rng =
     (case summary of
        None \<Rightarrow> Plain \<lparr>MetricPair.clicks = 0, uniqueUrls = 0\<rparr>
      | Some r \<Rightarrow>
          (case rng of
             Today \<Rightarrow> Plain (today (data r))
           | Yesterday \<Rightarrow> Plain (yesterday (data r))
           | ThisWeek \<Rightarrow> Week (thisWeek (data r))
           | ThisMonth \<Rightarrow> Month (thisMonth (data r))))"

text \<open>\<open>!!r && r.success\<close>, giving the data that the branch then reads.\<close>

definition hasData :: "'a Response option \<Rightarrow> 'a option" where
  "hasData r = (case r of None \<Rightarrow> None | Some x \<Rightarrow> if success x then Some (data x) else None)"

definition getBreakdownsForRange_resp ::
  "LocalTZA \<Rightarrow> int \<Rightarrow> WeeklyData Response option \<Rightarrow> MonthlyData Response option
     \<Rightarrow> SummaryData Response option \<Rightarrow> TimeRange \<Rightarrow> Breakdowns" where
  "getBreakdownsForRange_resp tza now weekly monthly summary rng =
     (let r0 = \<lparr>Breakdowns.locationBreakdown = [], jobTitleBreakdown = [],
                topPerformers = [], trendData = []\<rparr>;
          hasWeekly = hasData weekly;
          hasMonthly = hasData monthly;
          r1 =
            (case (if rng = ThisMonth then hasMonthly else None) of
               Some m \<Rightarrow> rollupBreakdowns m
             | None \<Rightarrow>
                 (case hasWeekly of
                    Some w \<Rightarrow>
                      (if rng = Today \<or> rng = Yesterday then
                         (case find (\<lambda>d. DailyBreakdown.date d = targetDate tza now rng)
                                    (dailyBreakdown w) of
                            Some day \<Rightarrow>
                              (rollupBreakdowns w)
                                \<lparr>Breakdowns.locationBreakdown :=
                                   DailyBreakdown.locationBreakdown day,
                                 Breakdowns.jobTitleBreakdown :=
                                   DailyBreakdown.jobTitleBreakdown day,
                                 Breakdowns.topPerformers := topShortCodes day\<rparr>
                          | None \<Rightarrow> rollupBreakdowns w)
                       else rollupBreakdowns w)
                  | None \<Rightarrow> r0))
      in case summary of
           None \<Rightarrow> r1
         | Some sr \<Rightarrow>
             (let r2 =
                    (case (if rng = ThisWeek then ThisWeek.topPerformers (thisWeek (data sr))
                           else None) of
                       Some tp \<Rightarrow> r1\<lparr>Breakdowns.topPerformers := tp\<rparr>
                     | None \<Rightarrow> r1)
              in case (if rng = ThisMonth then ThisMonth.topPerformers (thisMonth (data sr))
                       else None) of
                   Some tp \<Rightarrow> r2\<lparr>Breakdowns.topPerformers := tp\<rparr>
                 | None \<Rightarrow> r2))"


section \<open>Week ranges and the week comparison\<close>

record DateRange =
  startDate :: string
  endDate :: string

record WeekRanges =
  current :: DateRange
  previous :: DateRange

definition formatDate :: "int \<Rightarrow> string" where
  "formatDate d = slice_0_10 (toISOString d)"

definition getThisWeekAndLastWeekRanges :: "LocalTZA \<Rightarrow> int \<Rightarrow> WeekRanges" where
  "getThisWeekAndLastWeekRanges tza t =
     (let currentEnd = t;
          currentStart = setDate tza t (getDate tza currentEnd - 6);
          prevEnd = setDate tza currentStart (getDate tza currentStart - 1);
          prevStart = setDate tza prevEnd (getDate tza prevEnd - 6)
      in \<lparr>current = \<lparr>startDate = formatDate currentStart, endDate = formatDate currentEnd\<rparr>,
          previous = \<lparr>startDate = formatDate prevStart, endDate = formatDate prevEnd\<rparr>\<rparr>)"

text \<open>
  What the transport does with one request: \<open>fetch\<close> rejects, or a response arrives
  with its \<open>ok\<close> flag, its status and its body, which parses as JSON or does not.
\<close>

datatype 'a fetched = Rejected | Received bool nat "'a option"

text \<open>
  The errors thrown: by \<open>fetch\<close> itself, by \<open>fetchJson\<close> on a status that is not ok
  (\<open>Request failed: status\<close>), by \<open>res.json()\<close>, and by \<open>fetchWeekComparison\<close>
  (\<open>Failed to fetch week comparison\<close>).
\<close>

datatype error = FetchRejected | RequestFailed nat | BodyUnparsable | WeekComparisonFailed

definition fetchJson :: "'a fetched \<Rightarrow> error + 'a" where
  "fetchJson res =
     (case res of
        Rejected \<Rightarrow> Inl FetchRejected
      | Received ok status body \<Rightarrow>
          (if \<not> ok then Inl (RequestFailed status)
           else (case body of None \<Rightarrow> Inl BodyUnparsable | Some j \<Rightarrow> Inr j)))"

text \<open>
  The transport of \<open>/analytics/range\<close> is a function of the two query parameters.
\<close>

definition fetchRange :: "(string \<Rightarrow> string \<Rightarrow> 'a fetched) \<Rightarrow> string \<Rightarrow> string \<Rightarrow> error + 'a" where
  "fetchRange net start fin = fetchJson (net start fin)"

text \<open>
  \<open>Promise.all\<close> of two promises: both values, or the reason of the promise that
  rejected; when both reject, of the one that rejected first (\<open>secondFirst\<close> tells which).
\<close>

definition promise_all2 :: "bool \<Rightarrow> error + 'a \<Rightarrow> error + 'b \<Rightarrow> error + ('a \<times> 'b)" where
  "promise_all2 secondFirst p q =
     (case p of
        Inr a \<Rightarrow> (case q of Inr b \<Rightarrow> Inr (a, b) | Inl e \<Rightarrow> Inl e)
      | Inl e1 \<Rightarrow> (case q of Inr b \<Rightarrow> Inl e1 | Inl e2 \<Rightarrow> Inl (if secondFirst then e2 else e1)))"

record WeekComparison =
  current :: RangeData
  previous :: RangeData

definition fetchWeekComparison ::
  "LocalTZA \<Rightarrow> int \<Rightarrow> (string \<Rightarrow> string \<Rightarrow> RangeData Response fetched) \<Rightarrow> bool
     \<Rightarrow> error + WeekComparison" where
  "fetchWeekComparison tza now net secondFirst =
     (let ranges = getThisWeekAndLastWeekRanges tza now;
          cur = WeekRanges.current ranges;
          prev = WeekRanges.previous ranges
      in case promise_all2 secondFirst
                (fetchRange net (startDate cur) (endDate cur))
                (fetchRange net (startDate prev) (endDate prev)) of
           Inl e \<Rightarrow> Inl e
         | Inr (currentRes, previousRes) \<Rightarrow>
             (if \<not> success currentRes \<or> \<not> success previousRes then Inl WeekComparisonFailed
              else Inr \<lparr>WeekComparison.current = data currentRes,
                        previous = data previousRes\<rparr>))"


section \<open>The dashboard page (app/page.tsx)\<close>

text \<open>
  The page declares its own type for the weekly, monthly and range data, in which
  \<open>topPerformers\<close> is optional.
\<close>

record PageWeeklyData =
  totalClicks :: int
  uniqueUrls :: int
  dailyBreakdown :: "DailyBreakdown list"
  locationBreakdown :: Breakdown
  jobTitleBreakdown :: Breakdown
  topPerformers :: "TopPerformer list option"

text \<open>The state of the component: one field for each \<open>useState\<close>.\<close>

record PageState =
  summary :: "SummaryData option"
  weekly :: "PageWeeklyData option"
  monthly :: "PageWeeklyData option"
  selectedRange :: TimeRange
  loading :: bool
  rangeData :: "PageWeeklyData option"
  usingRange :: bool
  rangeLoading :: bool
  rangeError :: "string option"
  startDate :: string
  endDate :: string

definition getFullYear :: "LocalTZA \<Rightarrow> int \<Rightarrow> int" where
  "getFullYear tza t = YearFromTime (LocalTime tza t)"

definition getMonth :: "LocalTZA \<Rightarrow> int \<Rightarrow> int" where
  "getMonth tza t = MonthFromTime (LocalTime tza t)"

text \<open>
  \<open>fetchAll\<close>, run once when the page mounts. The three requests go out together; the
  page reads each body with \<open>res.json()\<close> and never looks at \<open>res.ok\<close>. If a request
  is rejected or a body does not parse, the \<open>catch\<close> block runs and no slot is set;
  otherwise each slot is set when its own response has a true \<open>success\<close>.
  \<open>netMonthly\<close> is the transport of \<open>/analytics/monthly\<close>, a function of the year and
  the month (1 to 12) of the query.
\<close>

definition fetchAll ::
  "LocalTZA \<Rightarrow> int \<Rightarrow> SummaryData Response fetched \<Rightarrow> PageWeeklyData Response fetched
     \<Rightarrow> (int \<Rightarrow> int \<Rightarrow> PageWeeklyData Response fetched) \<Rightarrow> PageState \<Rightarrow> PageState" where
  "fetchAll tza now netSummary netWeekly netMonthly s =
     (let year = getFullYear tza now;
          month = getMonth tza now + 1
      in case netSummary of
           Received ok1 st1 (Some summaryJson) \<Rightarrow>
             (case netWeekly of
                Received ok2 st2 (Some weeklyJson) \<Rightarrow>
                  (case netMonthly year month of
                     Received ok3 st3 (Some monthlyJson) \<Rightarrow>
                       s\<lparr>summary := (if success summaryJson then Some (data summaryJson)
                                      else summary s),
                         weekly := (if success weeklyJson then Some (data weeklyJson)
                                    else weekly s),
                         monthly := (if success monthlyJson then Some (data monthlyJson)
                                     else monthly s),
                         loading := False\<rparr>
                   | _ \<Rightarrow> s\<lparr>loading := False\<rparr>)
              | _ \<Rightarrow> s\<lparr>loading := False\<rparr>)
         | _ \<Rightarrow> s\<lparr>loading := False\<rparr>)"

text \<open>The two memoised date strings of the page, computed from the clock at mount.\<close>

definition todayISO :: "int \<Rightarrow> string" where
  "todayISO now = slice_0_10 (toISOString now)"

definition yesterdayISO :: "LocalTZA \<Rightarrow> int \<Rightarrow> string" where
  "yesterdayISO tza now = slice_0_10 (toISOString (setDate tza now (getDate tza now - 1)))"

text \<open>
  \<open>a < b\<close> on JavaScript strings: the first differing character decides, and a proper
  prefix is smaller. \<open>a > b\<close> is \<open>js_less b a\<close>.
\<close>

fun js_less :: "string \<Rightarrow> string \<Rightarrow> bool" where
  "js_less [] [] = False"
| "js_less [] (y # ys) = True"
| "js_less (x # xs) [] = False"
| "js_less (x # xs) (y # ys) =
     (if (of_char x :: nat) < of_char y then True
      else if (of_char y :: nat) < of_char x then False
      else js_less xs ys)"

text \<open>
  \<open>handleApplyRange\<close>: the state when the handler has finished, and the requests it
  sent to \<open>/analytics/range\<close>, each as its pair of query parameters.
\<close>

definition handleApplyRange ::
  "(string \<Rightarrow> string \<Rightarrow> PageWeeklyData Response fetched) \<Rightarrow> PageState
     \<Rightarrow> PageState \<times> (string \<times> string) list" where
  "handleApplyRange net s =
     (let s1 = s\<lparr>rangeError := None\<rparr>
      in if startDate s = [] \<or> endDate s = [] then
           (s1\<lparr>rangeError := Some ''Please select both start and end dates.''\<rparr>, [])
         else if js_less (endDate s) (startDate s) then
           (s1\<lparr>rangeError := Some ''Start date cannot be after end date.''\<rparr>, [])
         else
           (let s2 = s1\<lparr>rangeLoading := True\<rparr>;
                sent = [(startDate s, endDate s)]
            in case fetchRange net (startDate s) (endDate s) of
                 Inr res \<Rightarrow>
                   (if \<not> success res then
                      (s2\<lparr>rangeError := Some ''Range request failed.'',
                          usingRange := False, rangeData := None,
                          rangeLoading := False\<rparr>, sent)
                    else
                      (s2\<lparr>rangeData := Some (data res), usingRange := True,
                          rangeLoading := False\<rparr>, sent))
               | Inl err \<Rightarrow>
                   (s2\<lparr>rangeError := Some ''Could not load range data. Please try again.'',
                       usingRange := False, rangeData := None,
                       rangeLoading := False\<rparr>, sent)))"

definition handleClearRange :: "PageState \<Rightarrow> PageState" where
  "handleClearRange s = s\<lparr>usingRange := False, rangeData := None, rangeError := None\<rparr>"

text \<open>\<open>usingRange && rangeData\<close>: the custom-range data when a custom range is active.\<close>

definition activeRange :: "PageState \<Rightarrow> PageWeeklyData option" where
  "activeRange s = (if usingRange s then rangeData s else None)"

text \<open>
  The five derived values of the page. \<open>tISO\<close> and \<open>yISO\<close> are the memoised
  \<open>todayISO\<close> and \<open>yesterdayISO\<close>.
\<close>

definition trendData_page :: "string \<Rightarrow> string \<Rightarrow> PageState \<Rightarrow> DailyBreakdown list" where
  "trendData_page tISO yISO s =
     (case activeRange s of
        Some rd \<Rightarrow> PageWeeklyData.dailyBreakdown rd
      | None \<Rightarrow>
          (if weekly s = None \<and> monthly s = None then []
           else case (if selectedRange s = Today then weekly s else None) of
             Some w \<Rightarrow> filter (\<lambda>d. DailyBreakdown.date d = tISO) (PageWeeklyData.dailyBreakdown w)
           | None \<Rightarrow>
           (case (if selectedRange s = Yesterday then weekly s else None) of
             Some w \<Rightarrow> filter (\<lambda>d. DailyBreakdown.date d = yISO) (PageWeeklyData.dailyBreakdown w)
           | None \<Rightarrow>
           (case (if selectedRange s = ThisWeek then weekly s else None) of
             Some w \<Rightarrow> PageWeeklyData.dailyBreakdown w
           | None \<Rightarrow>
           (if selectedRange s = ThisMonth then
              (case monthly s of
                 Some m \<Rightarrow> PageWeeklyData.dailyBreakdown m
               | None \<Rightarrow>
                   (case weekly s of
                      Some w \<Rightarrow> PageWeeklyData.dailyBreakdown w
                    | None \<Rightarrow> []))
            else [])))))"

definition totalClicksForSelectedRange :: "PageState \<Rightarrow> int" where
  "totalClicksForSelectedRange s =
     (case activeRange s of
        Some rd \<Rightarrow> PageWeeklyData.totalClicks rd
      | None \<Rightarrow>
          (case summary s of
             None \<Rightarrow> 0
           | Some sm \<Rightarrow>
               (case selectedRange s of
                  Today \<Rightarrow> MetricPair.clicks (today sm)
                | Yesterday \<Rightarrow> MetricPair.clicks (yesterday sm)
                | ThisWeek \<Rightarrow> ThisWeek.clicks (thisWeek sm)
                | ThisMonth \<Rightarrow> ThisMonth.clicks (thisMonth sm))))"

text \<open>\<open>xs || []\<close> on an optional array.\<close>

definition orEmpty :: "'a list option \<Rightarrow> 'a list" where
  "orEmpty xs = (case xs of None \<Rightarrow> [] | Some ys \<Rightarrow> ys)"

definition topJobs :: "PageState \<Rightarrow> TopPerformer list" where
  "topJobs s =
     (case activeRange s of
        Some rd \<Rightarrow> orEmpty (PageWeeklyData.topPerformers rd)
      | None \<Rightarrow>
          (case summary s of
             None \<Rightarrow> []
           | Some sm \<Rightarrow>
               (if selectedRange s = ThisWeek then orEmpty (ThisWeek.topPerformers (thisWeek sm))
                else if selectedRange s = ThisMonth then
                  orEmpty (ThisMonth.topPerformers (thisMonth sm))
                else case weekly s of
                  None \<Rightarrow> []
                | Some w \<Rightarrow> orEmpty (PageWeeklyData.topPerformers w))))"

text \<open>
  The day that the location and the job-category breakdown drill into: for today or
  yesterday with the weekly data there, the first entry of the week with that date.
\<close>

definition selectedDay :: "string \<Rightarrow> string \<Rightarrow> PageState \<Rightarrow> DailyBreakdown option" where
  "selectedDay tISO yISO s =
     (if selectedRange s = Today \<or> selectedRange s = Yesterday then
        (case weekly s of
           None \<Rightarrow> None
         | Some w \<Rightarrow>
             (let targetDate = (if selectedRange s = Today then tISO else yISO)
              in find (\<lambda>d. DailyBreakdown.date d = targetDate)
                      (PageWeeklyData.dailyBreakdown w)))
      else None)"

definition locationBreakdown_page :: "string \<Rightarrow> string \<Rightarrow> PageState \<Rightarrow> Breakdown" where
  "locationBreakdown_page tISO yISO s =
     (case activeRange s of
        Some rd \<Rightarrow> PageWeeklyData.locationBreakdown rd
      | None \<Rightarrow>
     (if weekly s = None \<and> monthly s = None then []
      else case selectedDay tISO yISO s of
        Some day \<Rightarrow> DailyBreakdown.locationBreakdown day
      | None \<Rightarrow>
     (case (if selectedRange s = ThisWeek then weekly s else None) of
        Some w \<Rightarrow> PageWeeklyData.locationBreakdown w
      | None \<Rightarrow>
     (case (if selectedRange s = ThisMonth then monthly s else None) of
        Some m \<Rightarrow> PageWeeklyData.locationBreakdown m
      | None \<Rightarrow>
     (case (if selectedRange s = ThisMonth then
              (case summary s of
                 None \<Rightarrow> None
               | Some sm \<Rightarrow> ThisMonth.locationBreakdown (thisMonth sm))
            else None) of
        Some b \<Rightarrow> b
      | None \<Rightarrow>
     (case weekly s of
        Some w \<Rightarrow> PageWeeklyData.locationBreakdown w
      | None \<Rightarrow>
     (case monthly s of
        Some m \<Rightarrow> PageWeeklyData.locationBreakdown m
      | None \<Rightarrow> [])))))))"

definition jobCategoryBreakdown :: "string \<Rightarrow> string \<Rightarrow> PageState \<Rightarrow> Breakdown" where
  "jobCategoryBreakdown tISO yISO s =
     (case activeRange s of
        Some rd \<Rightarrow> PageWeeklyData.jobTitleBreakdown rd
      | None \<Rightarrow>
     (if weekly s = None \<and> monthly s = None then []
      else case selectedDay tISO yISO s of
        Some day \<Rightarrow> DailyBreakdown.jobTitleBreakdown day
      | None \<Rightarrow>
     (case (if selectedRange s = ThisWeek then weekly s else None) of
        Some w \<Rightarrow> PageWeeklyData.jobTitleBreakdown w
      | None \<Rightarrow>
     (case (if selectedRange s = ThisMonth then monthly s else None) of
        Some m \<Rightarrow> PageWeeklyData.jobTitleBreakdown m
      | None \<Rightarrow>
     (case (if selectedRange s = ThisMonth then
              (case summary s of
                 None \<Rightarrow> None
               | Some sm \<Rightarrow> ThisMonth.jobTitleBreakdown (thisMonth sm))
            else None) of
        Some b \<Rightarrow> b
      | None \<Rightarrow>
     (case weekly s of
        Some w \<Rightarrow> PageWeeklyData.jobTitleBreakdown w
      | None \<Rightarrow>
     (case monthly s of
        Some m \<Rightarrow> PageWeeklyData.jobTitleBreakdown m
      | None \<Rightarrow> [])))))))"

text \<open>Time zones for the examples: a fixed offset from UTC, in milliseconds.\<close>

definition fixedZone :: "int \<Rightarrow> LocalTZA" where
  "fixedZone off = (\<lambda>t isUTC. off)"

text \<open>
  A zone that is four hours behind UTC until 2025-11-02T06:00:00Z and five hours behind
  from then on (the end of daylight saving time in New York in 2025). A local time is
  read with the earlier offset until 02:00 local time of that day.
\<close>

definition newYorkAutumn2025 :: LocalTZA where
  "newYorkAutumn2025 =
     (\<lambda>t isUTC.
        if isUTC then (if t < 1762063200000 then - 14400000 else - 18000000)
        else (if t < 1762048800000 then - 14400000 else - 18000000))"


section \<open>Values compared in the statements, and example data\<close>

text \<open>The three drill-down fields of a result, of a day and of a week.\<close>

definition drillDown :: "Breakdowns \<Rightarrow> Breakdown \<times> Breakdown \<times> TopPerformer list" where
  "drillDown r = (Breakdowns.locationBreakdown r, Breakdowns.jobTitleBreakdown r,
                  Breakdowns.topPerformers r)"

definition dayValues :: "DailyBreakdown \<Rightarrow> Breakdown \<times> Breakdown \<times> TopPerformer list" where
  "dayValues day = (DailyBreakdown.locationBreakdown day, DailyBreakdown.jobTitleBreakdown day,
                    topShortCodes day)"

definition weekValues :: "WeeklyData \<Rightarrow> Breakdown \<times> Breakdown \<times> TopPerformer list" where
  "weekValues w = (WeeklyData.locationBreakdown w, WeeklyData.jobTitleBreakdown w,
                   WeeklyData.topPerformers w)"

text \<open>
  Example data: a week of two days, the same week with the later day only, a month and a
  summary. The example clock reads 2025-12-08T12:00:00Z.
\<close>

definition exPerformer :: "string \<Rightarrow> int \<Rightarrow> TopPerformer" where
  "exPerformer code n =
     \<lparr>shortCode = code, TopPerformer.clicks = n, jobTitle = ''Nurse'', location = ''Lagos'',
      originalUrl = ''https://example.com/job''\<rparr>"

definition exDay :: "string \<Rightarrow> int \<Rightarrow> DailyBreakdown" where
  "exDay d n =
     \<lparr>DailyBreakdown.date = d, totalClicks = n, uniqueUrls = 1,
      topShortCodes = [exPerformer ''day'' n], locationBreakdown = [(''Lagos'', n)],
      jobTitleBreakdown = [(''Nurse'', n)]\<rparr>"

definition exWeekly :: WeeklyData where
  "exWeekly =
     \<lparr>WeeklyData.totalClicks = 12, uniqueUrls = 3,
      dailyBreakdown = [exDay ''2025-12-07'' 7, exDay ''2025-12-08'' 5],
      topPerformers = [exPerformer ''week'' 10], locationBreakdown = [(''Lagos'', 12)],
      jobTitleBreakdown = [(''Nurse'', 12)]\<rparr>"

definition exWeeklyOneDay :: WeeklyData where
  "exWeeklyOneDay = exWeekly\<lparr>WeeklyData.dailyBreakdown := [exDay ''2025-12-08'' 5]\<rparr>"

definition exMonthly :: MonthlyData where
  "exMonthly =
     \<lparr>WeeklyData.totalClicks = 40, uniqueUrls = 9,
      dailyBreakdown = [exDay ''2025-12-01'' 28, exDay ''2025-12-07'' 7, exDay ''2025-12-08'' 5],
      topPerformers = [exPerformer ''month'' 30], locationBreakdown = [(''Abuja'', 40)],
      jobTitleBreakdown = [(''Driver'', 40)]\<rparr>"

definition exSummary :: SummaryData where
  "exSummary =
     \<lparr>today = \<lparr>MetricPair.clicks = 5, uniqueUrls = 1\<rparr>,
      yesterday = \<lparr>MetricPair.clicks = 7, uniqueUrls = 1\<rparr>,
      thisWeek = \<lparr>ThisWeek.clicks = 12, uniqueUrls = 3,
                  topPerformers = Some [exPerformer ''summary'' 99]\<rparr>,
      thisMonth = \<lparr>ThisMonth.clicks = 40, uniqueUrls = 9,
                   topPerformers = Some [exPerformer ''summary'' 77],
                   locationBreakdown = None, jobTitleBreakdown = None\<rparr>\<rparr>"

definition exClock :: int where
  "exClock = 1765195200000"

text \<open>The page with the example summary and week loaded and no custom range.\<close>

definition exPageWeekly :: PageWeeklyData where
  "exPageWeekly =
     \<lparr>PageWeeklyData.totalClicks = 12, uniqueUrls = 3,
      dailyBreakdown = [exDay ''2025-12-07'' 7, exDay ''2025-12-08'' 5],
      locationBreakdown = [(''Lagos'', 12)], jobTitleBreakdown = [(''Nurse'', 12)],
      topPerformers = Some [exPerformer ''week'' 10]\<rparr>"

definition exPageRange :: PageWeeklyData where
  "exPageRange =
     \<lparr>PageWeeklyData.totalClicks = 42, uniqueUrls = 4,
      dailyBreakdown = [exDay ''2025-11-20'' 42],
      locationBreakdown = [(''Kano'', 42)], jobTitleBreakdown = [(''Welder'', 42)],
      topPerformers = Some [exPerformer ''range'' 42]\<rparr>"

definition exPage :: PageState where
  "exPage =
     \<lparr>summary = Some exSummary, weekly = Some exPageWeekly, monthly = None,
      selectedRange = Today, loading = False, rangeData = None, usingRange = False,
      rangeLoading = False, rangeError = None, startDate = ''2025-12-01'',
      endDate = ''2025-12-10''\<rparr>"

definition emptyPage :: PageState where
  "emptyPage =
     \<lparr>summary = None, weekly = None, monthly = None,
      selectedRange = ThisWeek, loading = True, rangeData = None, usingRange = False,
      rangeLoading = False, rangeError = None, startDate = [], endDate = []\<rparr>"

text \<open>The example page while a custom range is active.\<close>

definition exPageCustom :: PageState where
  "exPageCustom = exPage\<lparr>rangeData := Some exPageRange, usingRange := True\<rparr>"

text \<open>The example page with the two dates of the form out of order.\<close>

definition exPageBadDates :: PageState where
  "exPageBadDates = exPage\<lparr>startDate := ''2025-12-10'', endDate := ''2025-12-01''\<rparr>"

text \<open>
  Example transports: one answers every request with the given envelope and status 200;
  one, of \<open>/analytics/range\<close>, answers the week from 2025-12-02 with success and every
  other request with \<open>success: false\<close>.
\<close>

definition answerAll :: "'a Response \<Rightarrow> 'b \<Rightarrow> 'c \<Rightarrow> 'a Response fetched" where
  "answerAll r start fin = Received True 200 (Some r)"

definition answerCurrentOnly :: "string \<Rightarrow> string \<Rightarrow> RangeData Response fetched" where
  "answerCurrentOnly start fin =
     (if start = ''2025-12-02'' then Received True 200 (Some \<lparr>success = True, data = exWeekly\<rparr>)
      else Received True 200 (Some \<lparr>success = False, data = exMonthly\<rparr>))"

text \<open>A transport on which every request is rejected.\<close>

definition rejectAll :: "'b \<Rightarrow> 'c \<Rightarrow> 'a fetched" where
  "rejectAll start fin = Rejected"

text \<open>A transport that answers with the given status, not ok, and a body that does not parse.\<close>

definition answerBroken :: "nat \<Rightarrow> 'b \<Rightarrow> 'c \<Rightarrow> 'a fetched" where
  "answerBroken status start fin = Received False status None"


section \<open>The resolver of lib/api.ts\<close>

text \<open>The earlier revision is the later one applied to the data of the responses.\<close>

lemma resp_as_data:
  "getBreakdownsForRange_resp tza now wk mo sm rng =
     getBreakdownsForRange tza now (hasData wk) (hasData mo) (map_option data sm) rng"
  by (cases sm) (simp_all add: getBreakdownsForRange_resp_def getBreakdownsForRange_def)

lemma hasData_success: "success r \<Longrightarrow> hasData (Some r) = Some (data r)"
  by (simp add: hasData_def)

text \<open>With distinct keys, \<open>find\<close> returns the one entry that has the key.\<close>

lemma find_distinct_key:
  "distinct (map f xs) \<Longrightarrow> x \<in> set xs \<Longrightarrow> find (\<lambda>d. f d = f x) xs = Some x"
proof (induction xs)
  case Nil
  then show ?case by simp
next
  case (Cons a xs)
  then show ?case by (cases "a = x") (auto simp: image_iff)
qed

lemma drillDown_day:
  assumes "rng = Today \<or> rng = Yesterday"
  shows "drillDown (getBreakdownsForRange tza now (Some w) mo sm rng) =
     (case find (\<lambda>d. DailyBreakdown.date d = targetDate tza now rng) (WeeklyData.dailyBreakdown w) of
        Some day \<Rightarrow> dayValues day
      | None \<Rightarrow> weekValues w)"
  using assms
  by (cases sm)
     (auto simp: getBreakdownsForRange_def drillDown_def dayValues_def weekValues_def
        rollupBreakdowns_def split: option.splits)

lemma exClock_today: "targetDate (fixedZone 0) exClock Today = ''2025-12-08''"
  by code_simp

lemma exClock_yesterday: "targetDate (fixedZone 0) exClock Yesterday = ''2025-12-07''"
  by code_simp

text \<open>
  C1. For today or yesterday with the weekly data present (in the earlier revision: the
  weekly response present with a true success flag), whatever the monthly data and the
  summary are: if the first entry of \<open>weekly.dailyBreakdown\<close> with the computed date is
  \<open>day\<close>, the resolved location breakdown, job-title breakdown and top performers are
  those of \<open>day\<close> (its \<open>topShortCodes\<close> for the performers); with the dates of the
  week distinct, as the data model has them, this is every entry with that date; and if
  no entry has the date, the three fields are the week-level values. The functions are
  total: no case raises.
\<close>

theorem drilldown_today_yesterday:
  assumes "rng = Today \<or> rng = Yesterday" and "success wr" and "data wr = w"
  shows
    "(\<forall>day. find (\<lambda>d. DailyBreakdown.date d = targetDate tza now rng)
               (WeeklyData.dailyBreakdown w) = Some day \<longrightarrow>
         drillDown (getBreakdownsForRange tza now (Some w) mo sm rng) = dayValues day \<and>
         drillDown (getBreakdownsForRange_resp tza now (Some wr) moR smR rng)
           = dayValues day) \<and>
     (distinct (map DailyBreakdown.date (WeeklyData.dailyBreakdown w)) \<longrightarrow>
        (\<forall>day \<in> set (WeeklyData.dailyBreakdown w).
           DailyBreakdown.date day = targetDate tza now rng \<longrightarrow>
             drillDown (getBreakdownsForRange tza now (Some w) mo sm rng)
               = dayValues day \<and>
             drillDown (getBreakdownsForRange_resp tza now (Some wr) moR smR rng)
               = dayValues day)) \<and>
     ((\<forall>day \<in> set (WeeklyData.dailyBreakdown w).
          DailyBreakdown.date day \<noteq> targetDate tza now rng) \<longrightarrow>
        drillDown (getBreakdownsForRange tza now (Some w) mo sm rng) = weekValues w \<and>
        drillDown (getBreakdownsForRange_resp tza now (Some wr) moR smR rng)
          = weekValues w)"
proof (intro conjI allI impI ballI)
  note dd = drillDown_day [OF assms(1)] resp_as_data hasData_success [OF assms(2)] assms(3)
  fix day
  assume "find (\<lambda>d. DailyBreakdown.date d = targetDate tza now rng)
            (WeeklyData.dailyBreakdown w) = Some day"
  then show "drillDown (getBreakdownsForRange tza now (Some w) mo sm rng) = dayValues day"
    and "drillDown (getBreakdownsForRange_resp tza now (Some wr) moR smR rng)
           = dayValues day"
    by (simp_all add: dd)
next
  note dd = drillDown_day [OF assms(1)] resp_as_data hasData_success [OF assms(2)] assms(3)
  fix day
  assume "distinct (map DailyBreakdown.date (WeeklyData.dailyBreakdown w))"
    and "day \<in> set (WeeklyData.dailyBreakdown w)"
    and "DailyBreakdown.date day = targetDate tza now rng"
  then have "find (\<lambda>d. DailyBreakdown.date d = targetDate tza now rng)
               (WeeklyData.dailyBreakdown w) = Some day"
    using find_distinct_key [of DailyBreakdown.date "WeeklyData.dailyBreakdown w" day] by simp
  then show "drillDown (getBreakdownsForRange tza now (Some w) mo sm rng) = dayValues day"
    and "drillDown (getBreakdownsForRange_resp tza now (Some wr) moR smR rng)
           = dayValues day"
    by (simp_all add: dd)
next
  note dd = drillDown_day [OF assms(1)] resp_as_data hasData_success [OF assms(2)] assms(3)
  assume "\<forall>day \<in> set (WeeklyData.dailyBreakdown w).
            DailyBreakdown.date day \<noteq> targetDate tza now rng"
  then have "find (\<lambda>d. DailyBreakdown.date d = targetDate tza now rng)
               (WeeklyData.dailyBreakdown w) = None"
    by (simp add: find_None_iff)
  then show "drillDown (getBreakdownsForRange tza now (Some w) mo sm rng) = weekValues w"
    and "drillDown (getBreakdownsForRange_resp tza now (Some wr) moR smR rng)
           = weekValues w"
    by (simp_all add: dd)
qed

theorem drilldown_today_yesterday_witness:
  "distinct (map DailyBreakdown.date (WeeklyData.dailyBreakdown exWeekly)) \<and>
   exDay ''2025-12-08'' 5 \<in> set (WeeklyData.dailyBreakdown exWeekly) \<and>
   DailyBreakdown.date (exDay ''2025-12-08'' 5) = targetDate (fixedZone 0) exClock Today \<and>
   drillDown (getBreakdownsForRange (fixedZone 0) exClock (Some exWeekly) (Some exMonthly)
                (Some exSummary) Today)
     = ([(''Lagos'', 5)], [(''Nurse'', 5)], [exPerformer ''day'' 5]) \<and>
   drillDown (getBreakdownsForRange_resp (fixedZone 0) exClock
                (Some \<lparr>success = True, data = exWeekly\<rparr>) None None Today)
     = ([(''Lagos'', 5)], [(''Nurse'', 5)], [exPerformer ''day'' 5]) \<and>
   drillDown (getBreakdownsForRange (fixedZone 0) exClock
                (Some (exWeeklyOneDay)) None None Yesterday)
     = ([(''Lagos'', 12)], [(''Nurse'', 12)], [exPerformer ''week'' 10])"
proof -
  have d: "distinct (map DailyBreakdown.date (WeeklyData.dailyBreakdown exWeekly))"
    by (simp add: exWeekly_def exDay_def)
  note a = drilldown_today_yesterday [of Today "\<lparr>success = True, data = exWeekly\<rparr>" exWeekly "fixedZone 0" exClock
      "Some exMonthly" "Some exSummary" None None]
  note b = drilldown_today_yesterday [of Yesterday "\<lparr>success = True, data = exWeeklyOneDay\<rparr>"
      "exWeeklyOneDay" "fixedZone 0" exClock None None None None]
  show ?thesis
    using a b d
    by (simp add: exClock_today exClock_yesterday exWeekly_def exWeeklyOneDay_def exDay_def dayValues_def
        weekValues_def)
qed

text \<open>
  C2. If the summary is present and its \<open>thisWeek\<close> (its \<open>thisMonth\<close>) record carries
  a non-empty \<open>topPerformers\<close> list, the resolved top performers for the range
  \<open>thisWeek\<close> (\<open>thisMonth\<close>) are that list, whatever the weekly and monthly data are;
  and for today and yesterday the resolved top performers do not depend on the summary.
\<close>

theorem summary_topPerformers_override:
  "(ThisWeek.topPerformers (thisWeek s) = Some tp \<and> tp \<noteq> [] \<longrightarrow>
      Breakdowns.topPerformers (getBreakdownsForRange tza now wk mo (Some s) ThisWeek) = tp \<and>
      Breakdowns.topPerformers
        (getBreakdownsForRange_resp tza now wkR moR (Some \<lparr>success = ok, data = s\<rparr>) ThisWeek)
        = tp) \<and>
   (ThisMonth.topPerformers (thisMonth s) = Some tp \<and> tp \<noteq> [] \<longrightarrow>
      Breakdowns.topPerformers (getBreakdownsForRange tza now wk mo (Some s) ThisMonth) = tp \<and>
      Breakdowns.topPerformers
        (getBreakdownsForRange_resp tza now wkR moR (Some \<lparr>success = ok, data = s\<rparr>) ThisMonth)
        = tp) \<and>
   (rng = Today \<or> rng = Yesterday \<longrightarrow>
      Breakdowns.topPerformers (getBreakdownsForRange tza now wk mo sm rng)
        = Breakdowns.topPerformers (getBreakdownsForRange tza now wk mo None rng) \<and>
      Breakdowns.topPerformers (getBreakdownsForRange_resp tza now wkR moR smR rng)
        = Breakdowns.topPerformers (getBreakdownsForRange_resp tza now wkR moR None rng))"
proof (intro conjI impI)
  assume "ThisWeek.topPerformers (thisWeek s) = Some tp \<and> tp \<noteq> []"
  then show "Breakdowns.topPerformers (getBreakdownsForRange tza now wk mo (Some s) ThisWeek) = tp"
    and "Breakdowns.topPerformers
        (getBreakdownsForRange_resp tza now wkR moR (Some \<lparr>success = ok, data = s\<rparr>) ThisWeek)
        = tp"
    by (simp_all add: resp_as_data getBreakdownsForRange_def)
next
  assume "ThisMonth.topPerformers (thisMonth s) = Some tp \<and> tp \<noteq> []"
  then show "Breakdowns.topPerformers (getBreakdownsForRange tza now wk mo (Some s) ThisMonth) = tp"
    and "Breakdowns.topPerformers
        (getBreakdownsForRange_resp tza now wkR moR (Some \<lparr>success = ok, data = s\<rparr>) ThisMonth)
        = tp"
    by (simp_all add: resp_as_data getBreakdownsForRange_def)
next
  assume r: "rng = Today \<or> rng = Yesterday"
  have g: "Breakdowns.topPerformers (getBreakdownsForRange tza now a b c rng)
        = Breakdowns.topPerformers (getBreakdownsForRange tza now a b None rng)" for a b c
    using r by (cases c) (auto simp: getBreakdownsForRange_def)
  show "Breakdowns.topPerformers (getBreakdownsForRange tza now wk mo sm rng)
        = Breakdowns.topPerformers (getBreakdownsForRange tza now wk mo None rng)"
    by (rule g)
  show "Breakdowns.topPerformers (getBreakdownsForRange_resp tza now wkR moR smR rng)
        = Breakdowns.topPerformers (getBreakdownsForRange_resp tza now wkR moR None rng)"
    using g by (simp add: resp_as_data)
qed

theorem summary_topPerformers_override_witness:
  "ThisWeek.topPerformers (thisWeek exSummary) = Some [exPerformer ''summary'' 99] \<and>
   [exPerformer ''summary'' 99] \<noteq> [] \<and>
   WeeklyData.topPerformers exWeekly = [exPerformer ''week'' 10] \<and>
   Breakdowns.topPerformers
     (getBreakdownsForRange (fixedZone 0) exClock (Some exWeekly) (Some exMonthly)
        (Some exSummary) ThisWeek) = [exPerformer ''summary'' 99] \<and>
   ThisMonth.topPerformers (thisMonth exSummary) = Some [exPerformer ''summary'' 77] \<and>
   Breakdowns.topPerformers
     (getBreakdownsForRange (fixedZone 0) exClock (Some exWeekly) (Some exMonthly)
        (Some exSummary) ThisMonth) = [exPerformer ''summary'' 77] \<and>
   Breakdowns.topPerformers
     (getBreakdownsForRange (fixedZone 0) exClock (Some exWeekly) (Some exMonthly)
        (Some exSummary) Today)
     = Breakdowns.topPerformers
         (getBreakdownsForRange (fixedZone 0) exClock (Some exWeekly) (Some exMonthly) None Today)"
  using summary_topPerformers_override [of exSummary "[exPerformer ''summary'' 99]" "fixedZone 0" exClock "Some exWeekly"
              "Some exMonthly" None None True Today "Some exSummary" None]
        summary_topPerformers_override [of exSummary "[exPerformer ''summary'' 77]" "fixedZone 0" exClock "Some exWeekly"
              "Some exMonthly" None None True Today "Some exSummary" None]
  by (simp add: exSummary_def exWeekly_def)

text \<open>
  C3, as stated, fails: with a summary that carries top performers for the month, the
  resolved list is the summary's and not the monthly dataset's.
\<close>

theorem thisMonth_from_monthly_counterexample:
  "Breakdowns.topPerformers
     (getBreakdownsForRange (fixedZone 0) exClock (Some exWeekly) (Some exMonthly)
        (Some exSummary) ThisMonth) \<noteq> WeeklyData.topPerformers exMonthly"
  by (simp add: getBreakdownsForRange_def exSummary_def exMonthly_def exPerformer_def)

text \<open>
  C3, amended. For the range \<open>thisMonth\<close> with the monthly data present, the trend series
  is \<open>monthly.dailyBreakdown\<close> projected to date and total clicks, the two breakdowns are
  the monthly ones, and the top performers are the monthly ones unless the summary is
  present and carries \<open>thisMonth.topPerformers\<close>, which then replace them; the result does
  not depend on the weekly data.
\<close>

theorem thisMonth_from_monthly:
  "(let r = getBreakdownsForRange tza now wk (Some m) sm ThisMonth
    in Breakdowns.trendData r = map trendPoint (WeeklyData.dailyBreakdown m) \<and>
       Breakdowns.locationBreakdown r = WeeklyData.locationBreakdown m \<and>
       Breakdowns.jobTitleBreakdown r = WeeklyData.jobTitleBreakdown m \<and>
       Breakdowns.topPerformers r =
         (case sm of
            None \<Rightarrow> WeeklyData.topPerformers m
          | Some s \<Rightarrow>
              (case ThisMonth.topPerformers (thisMonth s) of
                 None \<Rightarrow> WeeklyData.topPerformers m
               | Some tp \<Rightarrow> tp))) \<and>
   getBreakdownsForRange tza now wk (Some m) sm ThisMonth
     = getBreakdownsForRange tza now None (Some m) sm ThisMonth"
  by (cases sm)
     (auto simp: getBreakdownsForRange_def rollupBreakdowns_def Let_def split: option.splits)

theorem thisMonth_from_monthly_witness:
  "Breakdowns.trendData
     (getBreakdownsForRange (fixedZone 0) exClock (Some exWeekly) (Some exMonthly) None ThisMonth)
     = [\<lparr>TrendPoint.date = ''2025-12-01'', totalClicks = 28\<rparr>,
        \<lparr>TrendPoint.date = ''2025-12-07'', totalClicks = 7\<rparr>,
        \<lparr>TrendPoint.date = ''2025-12-08'', totalClicks = 5\<rparr>] \<and>
   Breakdowns.locationBreakdown
     (getBreakdownsForRange (fixedZone 0) exClock (Some exWeekly) (Some exMonthly) None ThisMonth)
     = [(''Abuja'', 40)] \<and>
   Breakdowns.topPerformers
     (getBreakdownsForRange (fixedZone 0) exClock (Some exWeekly) (Some exMonthly) None ThisMonth)
     = [exPerformer ''month'' 30] \<and>
   Breakdowns.topPerformers
     (getBreakdownsForRange (fixedZone 0) exClock (Some exWeekly) (Some exMonthly)
        (Some exSummary) ThisMonth)
     = [exPerformer ''summary'' 77]"
proof -
  have m: "map trendPoint (WeeklyData.dailyBreakdown exMonthly)
             = [\<lparr>TrendPoint.date = ''2025-12-01'', totalClicks = 28\<rparr>,
                \<lparr>TrendPoint.date = ''2025-12-07'', totalClicks = 7\<rparr>,
                \<lparr>TrendPoint.date = ''2025-12-08'', totalClicks = 5\<rparr>]"
    and l: "WeeklyData.locationBreakdown exMonthly = [(''Abuja'', 40)]"
    and t: "WeeklyData.topPerformers exMonthly = [exPerformer ''month'' 30]"
    and s: "ThisMonth.topPerformers (thisMonth exSummary) = Some [exPerformer ''summary'' 77]"
    by (simp_all add: exMonthly_def exSummary_def exDay_def trendPoint_def)
  show ?thesis
    using thisMonth_from_monthly [of "fixedZone 0" exClock "Some exWeekly" exMonthly None, THEN conjunct1]
          thisMonth_from_monthly [of "fixedZone 0" exClock "Some exWeekly" exMonthly "Some exSummary", THEN conjunct1]
    by (simp add: Let_def m l t s)
qed

text \<open>
  C5. With the summary, the weekly and the monthly data absent (and no custom-range data
  on the page), every range resolves to totals of zero clicks and zero unique URLs, an
  empty trend series, no top performers and empty breakdowns. The functions are total: no
  case raises.
\<close>

theorem all_absent_empty:
  "getSummaryForRange None rng = Plain \<lparr>MetricPair.clicks = 0, uniqueUrls = 0\<rparr> \<and>
   getSummaryForRange_resp None rng = Plain \<lparr>MetricPair.clicks = 0, uniqueUrls = 0\<rparr> \<and>
   getBreakdownsForRange tza now None None None rng
     = \<lparr>Breakdowns.locationBreakdown = [], jobTitleBreakdown = [], topPerformers = [],
        trendData = []\<rparr> \<and>
   getBreakdownsForRange_resp tza now None None None rng
     = \<lparr>Breakdowns.locationBreakdown = [], jobTitleBreakdown = [], topPerformers = [],
        trendData = []\<rparr> \<and>
   (summary s = None \<and> weekly s = None \<and> monthly s = None \<and> rangeData s = None \<longrightarrow>
      totalClicksForSelectedRange s = 0 \<and> trendData_page tISO yISO s = [] \<and> topJobs s = [] \<and>
      locationBreakdown_page tISO yISO s = [] \<and> jobCategoryBreakdown tISO yISO s = [])"
  by (simp add: getSummaryForRange_def getSummaryForRange_resp_def getBreakdownsForRange_def
      getBreakdownsForRange_resp_def hasData_def totalClicksForSelectedRange_def
      trendData_page_def topJobs_def locationBreakdown_page_def jobCategoryBreakdown_def
      activeRange_def)

theorem all_absent_empty_witness:
  "summary emptyPage = None \<and> weekly emptyPage = None \<and> monthly emptyPage = None \<and>
   rangeData emptyPage = None \<and>
   getSummaryForRange None ThisWeek = Plain \<lparr>MetricPair.clicks = 0, uniqueUrls = 0\<rparr> \<and>
   Breakdowns.trendData (getBreakdownsForRange (fixedZone 0) exClock None None None Today) = [] \<and>
   totalClicksForSelectedRange emptyPage = 0 \<and>
   trendData_page ''2025-12-08'' ''2025-12-07'' emptyPage = [] \<and>
   topJobs emptyPage = [] \<and>
   locationBreakdown_page ''2025-12-08'' ''2025-12-07'' emptyPage = [] \<and>
   jobCategoryBreakdown ''2025-12-08'' ''2025-12-07'' emptyPage = []"
  using all_absent_empty [of ThisWeek "fixedZone 0" exClock emptyPage "''2025-12-08''" "''2025-12-07''"]
        all_absent_empty [of Today "fixedZone 0" exClock emptyPage "''2025-12-08''" "''2025-12-07''"]
  by (simp add: emptyPage_def)

text \<open>
  C6, as stated, fails on the page: for today the page's trend series holds the entries
  of the selected day only.
\<close>

theorem trend_today_yesterday_counterexample:
  "map trendPoint (trendData_page ''2025-12-08'' ''2025-12-07'' exPage)
     \<noteq> map trendPoint (PageWeeklyData.dailyBreakdown exPageWeekly)"
  by (simp add: trendData_page_def activeRange_def exPage_def exPageWeekly_def exDay_def)

text \<open>
  C6, amended. For today or yesterday with the weekly data present,
  \<open>getBreakdownsForRange\<close> returns the whole of \<open>weekly.dailyBreakdown\<close> projected to
  date and total clicks; the trend series of the page, when no custom range is active, is
  instead the entries of \<open>weekly.dailyBreakdown\<close> whose date is today's (yesterday's)
  date string.
\<close>

theorem trend_today_yesterday:
  "(rng = Today \<or> rng = Yesterday \<longrightarrow>
      Breakdowns.trendData (getBreakdownsForRange tza now (Some w) mo sm rng)
        = map trendPoint (WeeklyData.dailyBreakdown w) \<and>
      Breakdowns.trendData
        (getBreakdownsForRange_resp tza now (Some \<lparr>success = True, data = w\<rparr>) moR smR rng)
        = map trendPoint (WeeklyData.dailyBreakdown w)) \<and>
   (activeRange s = None \<and> weekly s = Some pw \<and> selectedRange s = Today \<longrightarrow>
      trendData_page tISO yISO s
        = filter (\<lambda>d. DailyBreakdown.date d = tISO) (PageWeeklyData.dailyBreakdown pw)) \<and>
   (activeRange s = None \<and> weekly s = Some pw \<and> selectedRange s = Yesterday \<longrightarrow>
      trendData_page tISO yISO s
        = filter (\<lambda>d. DailyBreakdown.date d = yISO) (PageWeeklyData.dailyBreakdown pw))"
proof (intro conjI impI)
  assume r: "rng = Today \<or> rng = Yesterday"
  have g: "Breakdowns.trendData (getBreakdownsForRange tza now (Some w) a b rng)
        = map trendPoint (WeeklyData.dailyBreakdown w)" for a b
    using r
    by (cases b) (auto simp: getBreakdownsForRange_def rollupBreakdowns_def split: option.splits)
  show "Breakdowns.trendData (getBreakdownsForRange tza now (Some w) mo sm rng)
        = map trendPoint (WeeklyData.dailyBreakdown w)"
    by (rule g)
  show "Breakdowns.trendData
        (getBreakdownsForRange_resp tza now (Some \<lparr>success = True, data = w\<rparr>) moR smR rng)
        = map trendPoint (WeeklyData.dailyBreakdown w)"
    by (simp add: resp_as_data hasData_def g)
next
  assume "activeRange s = None \<and> weekly s = Some pw \<and> selectedRange s = Today"
  then show "trendData_page tISO yISO s
        = filter (\<lambda>d. DailyBreakdown.date d = tISO) (PageWeeklyData.dailyBreakdown pw)"
    by (simp add: trendData_page_def)
next
  assume "activeRange s = None \<and> weekly s = Some pw \<and> selectedRange s = Yesterday"
  then show "trendData_page tISO yISO s
        = filter (\<lambda>d. DailyBreakdown.date d = yISO) (PageWeeklyData.dailyBreakdown pw)"
    by (simp add: trendData_page_def)
qed

theorem trend_today_yesterday_witness:
  "Breakdowns.trendData
     (getBreakdownsForRange (fixedZone 0) exClock (Some exWeekly) None None Today)
     = [\<lparr>TrendPoint.date = ''2025-12-07'', totalClicks = 7\<rparr>,
        \<lparr>TrendPoint.date = ''2025-12-08'', totalClicks = 5\<rparr>] \<and>
   activeRange exPage = None \<and> weekly exPage = Some exPageWeekly \<and>
   selectedRange exPage = Today \<and>
   trendData_page ''2025-12-08'' ''2025-12-07'' exPage = [exDay ''2025-12-08'' 5] \<and>
   selectedRange (exPage\<lparr>selectedRange := Yesterday\<rparr>) = Yesterday \<and>
   trendData_page ''2025-12-08'' ''2025-12-07'' (exPage\<lparr>selectedRange := Yesterday\<rparr>)
     = [exDay ''2025-12-07'' 7]"
  using trend_today_yesterday [of Today "fixedZone 0" exClock exWeekly None None None None exPage exPageWeekly
              "''2025-12-08''" "''2025-12-07''"]
        trend_today_yesterday [of Today "fixedZone 0" exClock exWeekly None None None None
              "exPage\<lparr>selectedRange := Yesterday\<rparr>" exPageWeekly
              "''2025-12-08''" "''2025-12-07''"]
  by (simp add: exPage_def exPageWeekly_def exWeekly_def exDay_def trendPoint_def activeRange_def)

section \<open>The page's values under a custom range\<close>

text \<open>
  C4. While a custom range is active and its data are there, the total of clicks, the
  trend series, the top jobs and the two breakdowns of the page are those of the
  custom-range data (\<open>topPerformers || []\<close> for the top jobs), and they stay the same
  when the summary, the weekly data, the monthly data and the selected range are
  replaced by any others.
\<close>

theorem custom_range_wholesale:
  "usingRange s \<and> rangeData s = Some rd \<longrightarrow>
     (let s' = s\<lparr>summary := sm, weekly := wk, monthly := mo, selectedRange := rng\<rparr>
      in totalClicksForSelectedRange s = PageWeeklyData.totalClicks rd \<and>
         trendData_page tISO yISO s = PageWeeklyData.dailyBreakdown rd \<and>
         topJobs s = orEmpty (PageWeeklyData.topPerformers rd) \<and>
         locationBreakdown_page tISO yISO s = PageWeeklyData.locationBreakdown rd \<and>
         jobCategoryBreakdown tISO yISO s = PageWeeklyData.jobTitleBreakdown rd \<and>
         totalClicksForSelectedRange s' = totalClicksForSelectedRange s \<and>
         trendData_page tISO yISO s' = trendData_page tISO yISO s \<and>
         topJobs s' = topJobs s \<and>
         locationBreakdown_page tISO yISO s' = locationBreakdown_page tISO yISO s \<and>
         jobCategoryBreakdown tISO yISO s' = jobCategoryBreakdown tISO yISO s)"
  by (simp add: totalClicksForSelectedRange_def trendData_page_def topJobs_def
      locationBreakdown_page_def jobCategoryBreakdown_def activeRange_def)

theorem custom_range_wholesale_witness:
  "usingRange exPageCustom \<and> rangeData exPageCustom = Some exPageRange \<and>
   totalClicksForSelectedRange exPageCustom = 42 \<and>
   trendData_page ''2025-12-08'' ''2025-12-07'' exPageCustom = [exDay ''2025-11-20'' 42] \<and>
   topJobs exPageCustom = [exPerformer ''range'' 42] \<and>
   locationBreakdown_page ''2025-12-08'' ''2025-12-07'' exPageCustom = [(''Kano'', 42)] \<and>
   jobCategoryBreakdown ''2025-12-08'' ''2025-12-07'' exPageCustom = [(''Welder'', 42)] \<and>
   totalClicksForSelectedRange
     (exPageCustom\<lparr>summary := None, weekly := None, monthly := None, selectedRange := ThisMonth\<rparr>)
     = 42"
proof -
  have a: "usingRange exPageCustom" "rangeData exPageCustom = Some exPageRange"
    by (simp_all add: exPageCustom_def)
  have b: "PageWeeklyData.totalClicks exPageRange = 42"
    "PageWeeklyData.dailyBreakdown exPageRange = [exDay ''2025-11-20'' 42]"
    "orEmpty (PageWeeklyData.topPerformers exPageRange) = [exPerformer ''range'' 42]"
    "PageWeeklyData.locationBreakdown exPageRange = [(''Kano'', 42)]"
    "PageWeeklyData.jobTitleBreakdown exPageRange = [(''Welder'', 42)]"
    by (simp_all add: exPageRange_def orEmpty_def)
  show ?thesis
    using custom_range_wholesale [where s = exPageCustom and rd = exPageRange and sm = None and wk = None
          and mo = None and rng = ThisMonth and tISO = "''2025-12-08''" and yISO = "''2025-12-07''"]
    by (simp add: a b Let_def)
qed


section \<open>Week ranges\<close>

lemma MonthFromTime_range: "0 \<le> MonthFromTime t \<and> MonthFromTime t \<le> 11"
  by (simp add: MonthFromTime_def Let_def)

text \<open>Setting the day of the month to the current one plus \<open>k\<close> moves local time by \<open>k\<close> days.\<close>

lemma MakeDay_DateFromTime:
  "MakeDay (YearFromTime t) (MonthFromTime t) (DateFromTime t + k) = Day t + k"
proof -
  have m: "MonthFromTime t div 12 = 0" "MonthFromTime t mod 12 = MonthFromTime t"
    using MonthFromTime_range [of t] by simp_all
  show ?thesis
    by (simp add: MakeDay_def m DateFromTime_def DayWithinYear_def InLeapYear_def Let_def)
qed

lemma setDate_fixedZone:
  "setDate (fixedZone off) t (getDate (fixedZone off) t + k) = t + k * msPerDay"
proof -
  let ?lt = "t + off"
  have "MakeDate (Day ?lt + k) (TimeWithinDay ?lt) = ?lt + k * msPerDay"
    by (simp add: MakeDate_def Day_def TimeWithinDay_def algebra_simps)
  then show ?thesis
    by (simp add: setDate_def getDate_def LocalTime_def UTC_def fixedZone_def
        MakeDay_DateFromTime Let_def)
qed

text \<open>
  In a zone with a fixed offset the two windows are the 7 days that end at the reference
  instant and the 7 days before them, each bound written as the UTC date of its instant.
\<close>

lemma getThisWeekAndLastWeekRanges_fixedZone:
  "getThisWeekAndLastWeekRanges (fixedZone off) t =
     \<lparr>WeekRanges.current =
        \<lparr>DateRange.startDate = formatDate (t - 6 * msPerDay), endDate = formatDate t\<rparr>,
      previous =
        \<lparr>DateRange.startDate = formatDate (t - 13 * msPerDay),
         endDate = formatDate (t - 7 * msPerDay)\<rparr>\<rparr>"
proof -
  have a: "setDate (fixedZone off) u (getDate (fixedZone off) u - 6) = u - 6 * msPerDay" for u
    using setDate_fixedZone [of off u "-6"] by simp
  have b: "setDate (fixedZone off) u (getDate (fixedZone off) u - 1) = u - msPerDay" for u
    using setDate_fixedZone [of off u "-1"] by simp
  show ?thesis
    by (simp add: getThisWeekAndLastWeekRanges_def a b Let_def)
qed

text \<open>The example of the specification: the reference date 2025-12-08, in UTC.\<close>

lemma getThisWeekAndLastWeekRanges_2025_12_08:
  "getThisWeekAndLastWeekRanges (fixedZone 0) 1765152000000 =
     \<lparr>WeekRanges.current = \<lparr>DateRange.startDate = ''2025-12-02'', endDate = ''2025-12-08''\<rparr>,
      previous = \<lparr>DateRange.startDate = ''2025-11-25'', endDate = ''2025-12-01''\<rparr>\<rparr>"
  by code_simp

lemma exClock_ranges:
  "getThisWeekAndLastWeekRanges (fixedZone 0) exClock =
     \<lparr>WeekRanges.current = \<lparr>DateRange.startDate = ''2025-12-02'', endDate = ''2025-12-08''\<rparr>,
      previous = \<lparr>DateRange.startDate = ''2025-11-25'', endDate = ''2025-12-01''\<rparr>\<rparr>"
  by code_simp

text \<open>
  C7. The code at the reference instant 2025-11-04T00:30:00Z (Monday 3 November 2025,
  19:30 local time) in the zone \<open>newYorkAutumn2025\<close>: the current window runs from
  2025-10-28 to 2025-11-04, which is eight days, where six days before the reference
  instant is 2025-10-29.
\<close>

theorem week_ranges_dst_window:
  "getThisWeekAndLastWeekRanges newYorkAutumn2025 1762216200000 =
     \<lparr>WeekRanges.current = \<lparr>DateRange.startDate = ''2025-10-28'', endDate = ''2025-11-04''\<rparr>,
      previous = \<lparr>DateRange.startDate = ''2025-10-21'', endDate = ''2025-10-27''\<rparr>\<rparr> \<and>
   formatDate 1762216200000 = ''2025-11-04'' \<and>
   formatDate (1762216200000 - 6 * msPerDay) = ''2025-10-29'' \<and>
   getDate newYorkAutumn2025 1762216200000 = 3"
  by code_simp

section \<open>The week comparison\<close>

text \<open>
  C8. \<open>fetchWeekComparison\<close> returns the pair of datasets exactly when both range
  requests come back and both carry a true \<open>success\<close> flag, and the pair is then the data
  of the two responses; in every other case (a request that fails, or a response with
  \<open>success: false\<close>) it throws, and what is thrown is an error value that holds neither
  dataset.
\<close>

theorem week_comparison_all_or_nothing:
  "(let ranges = getThisWeekAndLastWeekRanges tza now;
        p = fetchRange net (DateRange.startDate (WeekRanges.current ranges))
              (DateRange.endDate (WeekRanges.current ranges));
        q = fetchRange net (DateRange.startDate (WeekRanges.previous ranges))
              (DateRange.endDate (WeekRanges.previous ranges));
        result = fetchWeekComparison tza now net secondFirst
    in (\<forall>cr pr. p = Inr cr \<and> q = Inr pr \<and> success cr \<and> success pr \<longrightarrow>
          result = Inr \<lparr>WeekComparison.current = data cr, previous = data pr\<rparr>) \<and>
       (\<forall>cr pr. p = Inr cr \<and> q = Inr pr \<and> (\<not> success cr \<or> \<not> success pr) \<longrightarrow>
          result = Inl WeekComparisonFailed) \<and>
       (\<forall>e. p = Inl e \<or> q = Inl e \<longrightarrow> (\<exists>e'. result = Inl e')) \<and>
       (\<forall>c. result = Inr c \<longrightarrow>
          (\<exists>cr pr. p = Inr cr \<and> q = Inr pr \<and> success cr \<and> success pr)))"
  by (auto simp: fetchWeekComparison_def promise_all2_def Let_def split: sum.splits)

theorem week_comparison_all_or_nothing_witness:
  "fetchRange answerCurrentOnly ''2025-12-02'' ''2025-12-08''
     = Inr \<lparr>success = True, data = exWeekly\<rparr> \<and>
   fetchRange answerCurrentOnly ''2025-11-25'' ''2025-12-01''
     = Inr \<lparr>success = False, data = exMonthly\<rparr> \<and>
   fetchWeekComparison (fixedZone 0) exClock answerCurrentOnly False = Inl WeekComparisonFailed \<and>
   fetchRange (answerAll \<lparr>success = True, data = exWeekly\<rparr>) ''2025-12-02'' ''2025-12-08''
     = Inr \<lparr>success = True, data = exWeekly\<rparr> \<and>
   fetchWeekComparison (fixedZone 0) exClock (answerAll \<lparr>success = True, data = exWeekly\<rparr>) False
     = Inr \<lparr>WeekComparison.current = exWeekly, previous = exWeekly\<rparr>"
proof -
  have a: "fetchRange answerCurrentOnly ''2025-12-02'' ''2025-12-08''
             = Inr \<lparr>success = True, data = exWeekly\<rparr>"
    and b: "fetchRange answerCurrentOnly ''2025-11-25'' ''2025-12-01''
             = Inr \<lparr>success = False, data = exMonthly\<rparr>"
    and c: "fetchRange (answerAll \<lparr>success = True, data = exWeekly\<rparr>) s f
             = Inr \<lparr>success = True, data = exWeekly\<rparr>" for s f
    by (simp_all add: fetchRange_def fetchJson_def answerCurrentOnly_def answerAll_def)
  show ?thesis
    using week_comparison_all_or_nothing [where tza = "fixedZone 0" and now = exClock
                and net = answerCurrentOnly and secondFirst = False]
          week_comparison_all_or_nothing [where tza = "fixedZone 0" and now = exClock
                and net = "answerAll \<lparr>success = True, data = exWeekly\<rparr>"
                and secondFirst = False]
    by (simp add: exClock_ranges a b c Let_def)
qed


section \<open>Applying a custom range, and failed requests\<close>

text \<open>
  C9. With the start or the end date empty, or with the start date greater than the end
  date as strings, \<open>handleApplyRange\<close> sends no request and leaves an error message in
  the state (and the custom-range data as they were); in every other case it sends
  exactly one request to \<open>/analytics/range\<close>, with the two dates.
\<close>

theorem apply_range_validation:
  "(startDate s = [] \<or> endDate s = [] \<longrightarrow>
      snd (handleApplyRange net s) = [] \<and>
      fst (handleApplyRange net s)
        = s\<lparr>rangeError := Some ''Please select both start and end dates.''\<rparr>) \<and>
   (startDate s \<noteq> [] \<and> endDate s \<noteq> [] \<and> js_less (endDate s) (startDate s) \<longrightarrow>
      snd (handleApplyRange net s) = [] \<and>
      fst (handleApplyRange net s)
        = s\<lparr>rangeError := Some ''Start date cannot be after end date.''\<rparr>) \<and>
   (startDate s \<noteq> [] \<and> endDate s \<noteq> [] \<and> \<not> js_less (endDate s) (startDate s) \<longrightarrow>
      snd (handleApplyRange net s) = [(startDate s, endDate s)])"
  by (auto simp: handleApplyRange_def Let_def split: sum.splits)

theorem apply_range_validation_witness:
  "startDate exPageBadDates = ''2025-12-10'' \<and> endDate exPageBadDates = ''2025-12-01'' \<and>
   js_less (endDate exPageBadDates) (startDate exPageBadDates) \<and>
   snd (handleApplyRange (answerAll \<lparr>success = True, data = exPageRange\<rparr>) exPageBadDates) = [] \<and>
   rangeError (fst (handleApplyRange (answerAll \<lparr>success = True, data = exPageRange\<rparr>)
                      exPageBadDates))
     = Some ''Start date cannot be after end date.'' \<and>
   startDate emptyPage = [] \<and>
   snd (handleApplyRange (answerAll \<lparr>success = True, data = exPageRange\<rparr>) emptyPage) = [] \<and>
   \<not> js_less (endDate exPage) (startDate exPage) \<and>
   snd (handleApplyRange (answerAll \<lparr>success = True, data = exPageRange\<rparr>) exPage)
     = [(''2025-12-01'', ''2025-12-10'')]"
proof -
  have a: "startDate exPageBadDates = ''2025-12-10''" "endDate exPageBadDates = ''2025-12-01''"
    "startDate emptyPage = []" "startDate exPage = ''2025-12-01''"
    "endDate exPage = ''2025-12-10''"
    by (simp_all add: exPageBadDates_def exPage_def emptyPage_def)
  have b: "js_less ''2025-12-01'' ''2025-12-10''" "\<not> js_less ''2025-12-10'' ''2025-12-01''"
    by simp_all
  show ?thesis
    using apply_range_validation
            [of exPageBadDates "answerAll \<lparr>success = True, data = exPageRange\<rparr>"]
          apply_range_validation
            [of emptyPage "answerAll \<lparr>success = True, data = exPageRange\<rparr>"]
          apply_range_validation
            [of exPage "answerAll \<lparr>success = True, data = exPageRange\<rparr>"]
    by (simp add: a b)
qed

text \<open>
  C10, as stated, fails for the custom-range slot: a range request that comes back with
  \<open>success: false\<close>, or that is rejected, clears the data the slot held.
\<close>

theorem failed_fetch_slots_counterexample:
  "rangeData exPageCustom = Some exPageRange \<and>
   rangeData (fst (handleApplyRange (answerAll \<lparr>success = False, data = exPageRange\<rparr>)
                     exPageCustom)) = None \<and>
   rangeData (fst (handleApplyRange rejectAll exPageCustom)) = None"
  by (simp add: handleApplyRange_def fetchRange_def fetchJson_def answerAll_def rejectAll_def
      exPageCustom_def exPage_def Let_def)

text \<open>
  C10, amended. In \<open>fetchAll\<close>, a request that is rejected, whose body does not parse
  or whose envelope has \<open>success: false\<close> leaves its own slot (summary, weekly or
  monthly) as it was, and the custom-range slot is never touched. \<open>handleApplyRange\<close>
  never touches the summary, weekly and monthly slots; when it sends no request the
  custom-range slot stays as it was, and when its request fails (it is rejected, the
  status is not ok, the body does not parse, or the envelope has \<open>success: false\<close>) the
  custom-range slot is cleared, the custom range is switched off and an error message is
  set.
\<close>

theorem failed_fetch_slots:
  "(let s' = fetchAll tza now netSummary netWeekly netMonthly s
    in ((\<forall>ok st j. netSummary = Received ok st (Some j) \<longrightarrow> \<not> success j) \<longrightarrow>
          summary s' = summary s) \<and>
       ((\<forall>ok st j. netWeekly = Received ok st (Some j) \<longrightarrow> \<not> success j) \<longrightarrow>
          weekly s' = weekly s) \<and>
       ((\<forall>ok st j. netMonthly (getFullYear tza now) (getMonth tza now + 1)
                      = Received ok st (Some j) \<longrightarrow> \<not> success j) \<longrightarrow>
          monthly s' = monthly s) \<and>
       rangeData s' = rangeData s) \<and>
   (let s' = fst (handleApplyRange net s); sent = snd (handleApplyRange net s)
    in summary s' = summary s \<and> weekly s' = weekly s \<and> monthly s' = monthly s \<and>
       (sent = [] \<longrightarrow> rangeData s' = rangeData s) \<and>
       (sent \<noteq> [] \<and>
        (\<forall>res. fetchRange net (startDate s) (endDate s) = Inr res \<longrightarrow> \<not> success res) \<longrightarrow>
          rangeData s' = None \<and> usingRange s' = False \<and> rangeError s' \<noteq> None))"
proof -
  have a: "(let s' = fetchAll tza now netSummary netWeekly netMonthly s
    in ((\<forall>ok st j. netSummary = Received ok st (Some j) \<longrightarrow> \<not> success j) \<longrightarrow>
          summary s' = summary s) \<and>
       ((\<forall>ok st j. netWeekly = Received ok st (Some j) \<longrightarrow> \<not> success j) \<longrightarrow>
          weekly s' = weekly s) \<and>
       ((\<forall>ok st j. netMonthly (getFullYear tza now) (getMonth tza now + 1)
                      = Received ok st (Some j) \<longrightarrow> \<not> success j) \<longrightarrow>
          monthly s' = monthly s) \<and>
       rangeData s' = rangeData s)"
    by (auto simp: fetchAll_def Let_def split: fetched.splits option.splits)
  have b: "(let s' = fst (handleApplyRange net s); sent = snd (handleApplyRange net s)
    in summary s' = summary s \<and> weekly s' = weekly s \<and> monthly s' = monthly s \<and>
       (sent = [] \<longrightarrow> rangeData s' = rangeData s) \<and>
       (sent \<noteq> [] \<and>
        (\<forall>res. fetchRange net (startDate s) (endDate s) = Inr res \<longrightarrow> \<not> success res) \<longrightarrow>
          rangeData s' = None \<and> usingRange s' = False \<and> rangeError s' \<noteq> None))"
    by (auto simp: handleApplyRange_def Let_def split: sum.splits)
  from a b show ?thesis by simp
qed

theorem failed_fetch_slots_witness:
  "weekly (fetchAll (fixedZone 0) exClock
             (Received True 200 (Some \<lparr>success = True, data = exSummary\<rparr>))
             (Received True 200 (Some \<lparr>success = False, data = exPageRange\<rparr>))
             (answerAll \<lparr>success = True, data = exPageRange\<rparr>) exPage)
     = Some exPageWeekly \<and>
   summary (fetchAll (fixedZone 0) exClock Rejected
             (Received True 200 (Some \<lparr>success = True, data = exPageRange\<rparr>))
             (answerAll \<lparr>success = True, data = exPageRange\<rparr>) exPage)
     = Some exSummary \<and>
   monthly (fetchAll (fixedZone 0) exClock
             (Received True 200 (Some \<lparr>success = True, data = exSummary\<rparr>))
             (Received True 200 (Some \<lparr>success = True, data = exPageRange\<rparr>))
             (answerBroken 500) exPage)
     = None \<and>
   snd (handleApplyRange rejectAll exPageBadDates) = [] \<and>
   rangeData (fst (handleApplyRange rejectAll exPageBadDates)) = rangeData exPageBadDates \<and>
   snd (handleApplyRange rejectAll exPageCustom) \<noteq> [] \<and>
   rangeData (fst (handleApplyRange rejectAll exPageCustom)) = None \<and>
   usingRange (fst (handleApplyRange rejectAll exPageCustom)) = False \<and>
   weekly (fst (handleApplyRange rejectAll exPageCustom)) = Some exPageWeekly"
proof -
  have e: "weekly exPage = Some exPageWeekly" "summary exPage = Some exSummary"
    "monthly exPage = None" "weekly exPageCustom = Some exPageWeekly"
    by (simp_all add: exPage_def exPageCustom_def)
  have v: "snd (handleApplyRange rejectAll exPageBadDates) = []"
    "snd (handleApplyRange rejectAll exPageCustom) \<noteq> []"
    "fetchRange rejectAll a b = Inl FetchRejected" for a b
    by (simp_all add: handleApplyRange_def exPageBadDates_def exPageCustom_def exPage_def
        fetchRange_def fetchJson_def rejectAll_def Let_def)
  show ?thesis
    using failed_fetch_slots [where tza = "fixedZone 0" and now = exClock and s = exPage
                 and netSummary = "Received True 200 (Some \<lparr>success = True, data = exSummary\<rparr>)"
                 and netWeekly = "Received True 200 (Some \<lparr>success = False, data = exPageRange\<rparr>)"
                 and netMonthly = "answerAll \<lparr>success = True, data = exPageRange\<rparr>"
                 and net = rejectAll, THEN conjunct1]
          failed_fetch_slots [where tza = "fixedZone 0" and now = exClock and s = exPage
                 and netSummary = Rejected
                 and netWeekly = "Received True 200 (Some \<lparr>success = True, data = exPageRange\<rparr>)"
                 and netMonthly = "answerAll \<lparr>success = True, data = exPageRange\<rparr>"
                 and net = rejectAll, THEN conjunct1]
          failed_fetch_slots [where tza = "fixedZone 0" and now = exClock and s = exPage
                 and netSummary = "Received True 200 (Some \<lparr>success = True, data = exSummary\<rparr>)"
                 and netWeekly = "Received True 200 (Some \<lparr>success = True, data = exPageRange\<rparr>)"
                 and netMonthly = "answerBroken 500"
                 and net = rejectAll, THEN conjunct1]
          failed_fetch_slots [where tza = "fixedZone 0" and now = exClock and s = exPageBadDates
                 and netSummary = Rejected and netWeekly = Rejected
                 and netMonthly = rejectAll
                 and net = rejectAll, THEN conjunct2]
          failed_fetch_slots [where tza = "fixedZone 0" and now = exClock and s = exPageCustom
                 and netSummary = Rejected and netWeekly = Rejected
                 and netMonthly = rejectAll
                 and net = rejectAll, THEN conjunct2]
    by (simp add: e v Let_def answerBroken_def answerAll_def)
qed

end
